theory Spec2Isabelle
  imports
    Complex_Main
    "HOL-Library.Char_ord"
    "HOL-Library.List_Lexorder"
    "HOL-Library.Product_Lexorder"
begin

chapter \<open>CEI scores and stock returns: the analysis notebook and the extraction report\<close>

text \<open>
  The development embeds \<^verbatim>\<open>notebooks/cei_stock_analysis.ipynb\<close>: the two cell-level
  functions \<^verbatim>\<open>get_cusip6\<close> and \<^verbatim>\<open>create_score_bin\<close>, and the data frames the
  notebook derives from its two CSV inputs (\<^verbatim>\<open>cei_df\<close>, \<^verbatim>\<open>stock_df\<close>,
  \<^verbatim>\<open>merged_df\<close>, \<^verbatim>\<open>yearly_analysis\<close>, \<^verbatim>\<open>overall_analysis\<close>,
  \<^verbatim>\<open>event_window\<close>, \<^verbatim>\<open>firm_event_returns\<close>, \<^verbatim>\<open>high_scores\<close>,
  \<^verbatim>\<open>low_scores\<close>).

  Conventions of the embedding.
  \<^item> A data frame is the list of its rows, in row order; a row is a record of its columns.
    The columns of a frame carry a one-letter prefix (\<open>c_\<close> for \<^verbatim>\<open>cei_df\<close>, \<open>s_\<close> for
    \<^verbatim>\<open>stock_df\<close>, \<open>m_\<close> for \<^verbatim>\<open>merged_df\<close>, \<open>f_\<close> for
    \<^verbatim>\<open>firm_event_returns\<close>, \<open>y_\<close> and \<open>o_\<close> for the two aggregate tables), since a
    record field is a global name.
  \<^item> A cell that pandas can hold as missing (\<^verbatim>\<open>NaN\<close>, \<^verbatim>\<open>None\<close>, \<^verbatim>\<open>NaT\<close>) is an
    \<open>option\<close>, \<open>None\<close> being the missing value; \<^verbatim>\<open>pd.isna\<close> is \<open>x = None\<close>.
  \<^item> A finite float is the rational number it denotes (\<open>rat\<close>); sums and means are exact,
    rounding is not modelled. Infinite floats are outside the model.
  \<^item> A Python string is a \<open>string\<close>, each character standing for one code point below
    256, so that \<open>length\<close> counts what Python's \<^verbatim>\<open>len\<close> counts.
  \<^item> Plotting and printing have no effect on the data and are left out.
\<close>

section \<open>Strings and numbers of the host language\<close>

text \<open>\<^verbatim>\<open>str.isspace\<close> on one character with a code point below 256: tab, line feed,
  vertical tab, form feed, carriage return, the four separators 0x1C to 0x1F, the space,
  NEL (0x85) and the no-break space (0xA0).\<close>

definition isspace :: "char \<Rightarrow> bool" where
  "isspace c = ((of_char c :: nat) \<in> {9, 10, 11, 12, 13, 28, 29, 30, 31, 32, 133, 160})"

text \<open>\<^verbatim>\<open>str.strip()\<close>: leading and trailing whitespace removed.\<close>

definition strip :: "string \<Rightarrow> string" where
  "strip s = rev (dropWhile isspace (rev (dropWhile isspace s)))"

text \<open>Decimal formatting of an integer, as an f-string prints it.\<close>

definition digit_char :: "nat \<Rightarrow> char" where
  "digit_char d = ''0123456789'' ! d"

function str_nat :: "nat \<Rightarrow> string" where
  "str_nat n = (if n < 10 then [digit_char n] else str_nat (n div 10) @ [digit_char (n mod 10)])"
  by pat_completeness auto
termination
  by (relation "measure id") auto

declare str_nat.simps [simp del]

definition str_int :: "int \<Rightarrow> string" where
  "str_int i = (if i < 0 then CHR ''-'' # str_nat (nat (- i)) else str_nat (nat i))"

section \<open>The two cell functions of the notebook\<close>

text \<open>
  \<^verbatim>\<open>
  def get_cusip6(cusip):
      if pd.isna(cusip):
          return None
      cusip_str = str(cusip).strip()
      if len(cusip_str) >= 6:
          return cusip_str[:6]
      return None
  \<close>
  The argument is given by its string form \<^verbatim>\<open>str(cusip)\<close>, or \<open>None\<close> when it is missing.
\<close>

definition get_cusip6 :: "string option \<Rightarrow> string option" where
  "get_cusip6 cusip =
     (case cusip of
        None \<Rightarrow> None
      | Some raw \<Rightarrow>
          (let cusip_str = strip raw
           in if length cusip_str \<ge> 6 then Some (take 6 cusip_str) else None))"

text \<open>
  \<^verbatim>\<open>
  def create_score_bin(score):
      """Create score bins: 0-9, 10-19, ..., 90-100"""
      if pd.isna(score):
          return None
      bin_start = int(score // 10) * 10
      bin_end = min(bin_start + 9, 100)
      return f"{bin_start}-{bin_end}"
  \<close>
  Floor division of a float by 10 is the floor of the quotient, and \<^verbatim>\<open>int\<close> of that
  integral float is the same integer.
\<close>

definition create_score_bin :: "rat option \<Rightarrow> string option" where
  "create_score_bin score =
     (case score of
        None \<Rightarrow> None
      | Some s \<Rightarrow>
          (let bin_start = \<lfloor>s / 10\<rfloor> * 10;
               bin_end = min (bin_start + 9) 100
           in Some (str_int bin_start @ ''-'' @ str_int bin_end)))"

section \<open>The input frames\<close>

record date =
  d_year :: int
  d_month :: int
  d_day :: int

text \<open>A row of \<^verbatim>\<open>data/processed/cei_with_dates.csv\<close>, by the columns the notebook reads.\<close>

record cei_row =
  c_cusip :: "string option"
  c_year :: "int option"
  c_cei_score :: "rat option"
  c_employer :: "string option"

text \<open>A row of \<^verbatim>\<open>data/processed/stock_prices_event_window.csv\<close>, the two date columns
  already parsed by \<^verbatim>\<open>pd.to_datetime\<close>.\<close>

record stock_row =
  s_date :: "date option"
  s_cei_release_date :: "date option"
  s_cusip6 :: "string option"
  s_RET :: "rat option"
  s_days_from_release :: "int option"

text \<open>The derived columns: \<^verbatim>\<open>cei_df['cusip6'] = cei_df['cusip'].apply(get_cusip6)\<close>,
  \<^verbatim>\<open>cei_df['score_bin'] = cei_df['cei_score'].apply(create_score_bin)\<close> and
  \<^verbatim>\<open>stock_df['cei_year'] = stock_df['cei_release_date'].dt.year\<close>. Each is a function of
  the row it is stored in.\<close>

definition c_cusip6 :: "cei_row \<Rightarrow> string option" where
  "c_cusip6 r = get_cusip6 (c_cusip r)"

definition c_score_bin :: "cei_row \<Rightarrow> string option" where
  "c_score_bin r = create_score_bin (c_cei_score r)"

definition s_cei_year :: "stock_row \<Rightarrow> int option" where
  "s_cei_year s = map_option d_year (s_cei_release_date s)"

text \<open>\<^verbatim>\<open>cei_df = cei_df.dropna(subset=['cusip6', 'cei_score'])\<close>: a row stays when
  neither cell is missing.\<close>

definition cei_df :: "cei_row list \<Rightarrow> cei_row list" where
  "cei_df csv = filter (\<lambda>r. c_cusip6 r \<noteq> None \<and> c_cei_score r \<noteq> None) csv"

section \<open>The merged frame\<close>

record merged_row =
  m_date :: "date option"
  m_cei_release_date :: "date option"
  m_cusip6 :: "string option"
  m_RET :: "rat option"
  m_days_from_release :: "int option"
  m_cei_year :: "int option"
  m_year :: "int option"
  m_cei_score :: "rat option"
  m_score_bin :: "string option"
  m_employer :: "string option"

text \<open>
  \<^verbatim>\<open>
  merged_df = stock_df.merge(
      cei_df[['cusip6', 'year', 'cei_score', 'score_bin', 'employer']],
      left_on=['cusip6', 'cei_year'], right_on=['cusip6', 'year'], how='inner')
  \<close>
  The inner join of pandas: one output row for every pair of a left and a right row whose
  key tuples are equal. pandas compares keys so that a missing key equals a missing key,
  which is equality of \<open>option\<close> values. The two key columns named \<^verbatim>\<open>cusip6\<close>
  become one column; \<^verbatim>\<open>cei_year\<close> and \<^verbatim>\<open>year\<close> are both kept. The rows are
  listed by left row and, for one left row, by right row; the versions of pandas order
  the rows of an inner join differently, and no property below depends on their order.
\<close>

definition keys_match :: "stock_row \<Rightarrow> cei_row \<Rightarrow> bool" where
  "keys_match s c = (s_cusip6 s = c_cusip6 c \<and> s_cei_year s = c_year c)"

definition join_row :: "stock_row \<Rightarrow> cei_row \<Rightarrow> merged_row" where
  "join_row s c =
     \<lparr>m_date = s_date s,
      m_cei_release_date = s_cei_release_date s,
      m_cusip6 = s_cusip6 s,
      m_RET = s_RET s,
      m_days_from_release = s_days_from_release s,
      m_cei_year = s_cei_year s,
      m_year = c_year c,
      m_cei_score = c_cei_score c,
      m_score_bin = c_score_bin c,
      m_employer = c_employer c\<rparr>"

definition merge_inner :: "stock_row list \<Rightarrow> cei_row list \<Rightarrow> merged_row list" where
  "merge_inner stock cei =
     concat (map (\<lambda>s. map (join_row s) (filter (keys_match s) cei)) stock)"

text \<open>The frame after \<^verbatim>\<open>merged_df = merged_df.dropna(subset=['RET'])\<close>, from the two CSV
  inputs. Every later cell reads this frame and none assigns it again.\<close>

definition merged_df :: "stock_row list \<Rightarrow> cei_row list \<Rightarrow> merged_row list" where
  "merged_df stock_csv cei_csv =
     filter (\<lambda>m. m_RET m \<noteq> None) (merge_inner stock_csv (cei_df cei_csv))"

section \<open>Grouping and aggregation\<close>

text \<open>
  \<^verbatim>\<open>df.groupby(keys)[col].agg(...)\<close> with the defaults \<^verbatim>\<open>dropna=True\<close> and
  \<^verbatim>\<open>sort=True\<close>: a row with a missing key belongs to no group, there is one group for
  each distinct key tuple of the other rows, and the groups come in ascending key order.
  A key function returns \<open>None\<close> when any of its key cells is missing.
\<close>

definition group_keys :: "('r \<Rightarrow> 'k option) \<Rightarrow> 'r list \<Rightarrow> ('k :: linorder) list" where
  "group_keys key rows = sort (remdups (List.map_filter key rows))"

definition group_of :: "('r \<Rightarrow> 'k option) \<Rightarrow> 'r list \<Rightarrow> 'k \<Rightarrow> 'r list" where
  "group_of key rows k = filter (\<lambda>r. key r = Some k) rows"

text \<open>The values of one column in a group; the aggregations of pandas skip missing cells.
  \<^verbatim>\<open>sum\<close> of no value is 0, \<^verbatim>\<open>mean\<close>, \<^verbatim>\<open>min\<close> and \<^verbatim>\<open>max\<close> of no value are
  missing, \<^verbatim>\<open>count\<close> counts the values present.\<close>

definition col_values :: "('r \<Rightarrow> rat option) \<Rightarrow> 'r list \<Rightarrow> rat list" where
  "col_values col rows = List.map_filter col rows"

definition agg_mean :: "rat list \<Rightarrow> rat option" where
  "agg_mean vs = (if vs = [] then None else Some (sum_list vs / of_nat (length vs)))"

definition agg_min :: "rat list \<Rightarrow> rat option" where
  "agg_min vs = (if vs = [] then None else Some (Min (set vs)))"

definition agg_max :: "rat list \<Rightarrow> rat option" where
  "agg_max vs = (if vs = [] then None else Some (Max (set vs)))"

section \<open>Returns by year, score bin and day\<close>

text \<open>
  \<^verbatim>\<open>
  yearly_analysis = merged_df.groupby(['year', 'score_bin', 'days_from_release'])['RET'].agg(
      ['mean', 'std', 'count']).reset_index()
  \<close>
  The column \<^verbatim>\<open>std_return\<close> (a floating-point square root) is not carried: no property
  below reads it.
\<close>

record yearly_row =
  y_year :: int
  y_score_bin :: string
  y_days_from_release :: int
  y_avg_return :: "rat option"
  y_count :: nat

definition year_bin_day :: "merged_row \<Rightarrow> (int \<times> string \<times> int) option" where
  "year_bin_day m =
     (case m_year m of None \<Rightarrow> None | Some y \<Rightarrow>
      (case m_score_bin m of None \<Rightarrow> None | Some b \<Rightarrow>
       (case m_days_from_release m of None \<Rightarrow> None | Some d \<Rightarrow> Some (y, b, d))))"

definition yearly_analysis :: "merged_row list \<Rightarrow> yearly_row list" where
  "yearly_analysis merged =
     map (\<lambda>(y, b, d).
            \<lparr>y_year = y, y_score_bin = b, y_days_from_release = d,
             y_avg_return = agg_mean (col_values m_RET (group_of year_bin_day merged (y, b, d))),
             y_count = length (col_values m_RET (group_of year_bin_day merged (y, b, d)))\<rparr>)
         (group_keys year_bin_day merged)"

text \<open>
  \<^verbatim>\<open>
  year_data = yearly_analysis[yearly_analysis['year'] == year]
  pivot_data = year_data.pivot(index='days_from_release', columns='score_bin', values='avg_return')
  \<close>
  The pivot has the distinct days as its index and the distinct score bins as its columns,
  both ascending; a cell with no row is missing. pandas raises \<^verbatim>\<open>ValueError\<close> when two
  rows share an index and a column.
\<close>

definition year_data :: "yearly_row list \<Rightarrow> int \<Rightarrow> yearly_row list" where
  "year_data ya year = filter (\<lambda>r. y_year r = year) ya"

record pivot_table =
  p_index :: "int list"
  p_columns :: "string list"
  p_cell :: "int \<Rightarrow> string \<Rightarrow> rat option"

datatype py_error = ValueError

definition pivot :: "yearly_row list \<Rightarrow> py_error + pivot_table" where
  "pivot rows =
     (if distinct (map (\<lambda>r. (y_days_from_release r, y_score_bin r)) rows)
      then Inr \<lparr>p_index = sort (remdups (map y_days_from_release rows)),
                p_columns = sort (remdups (map y_score_bin rows)),
                p_cell = (\<lambda>d b. case find (\<lambda>r. y_days_from_release r = d \<and> y_score_bin r = b) rows of
                                   None \<Rightarrow> None
                                 | Some r \<Rightarrow> y_avg_return r)\<rparr>
      else Inl ValueError)"

definition pivot_data :: "merged_row list \<Rightarrow> int \<Rightarrow> py_error + pivot_table" where
  "pivot_data merged year = pivot (year_data (yearly_analysis merged) year)"

section \<open>Returns by score bin and day, all years\<close>

text \<open>
  \<^verbatim>\<open>
  overall_analysis = merged_df.groupby(['score_bin', 'days_from_release'])['RET'].agg(
      ['mean', 'std', 'count']).reset_index()
  \<close>
  Again without the columns \<^verbatim>\<open>std_return\<close> and \<^verbatim>\<open>std_error\<close>.
\<close>

record overall_row =
  o_score_bin :: string
  o_days_from_release :: int
  o_avg_return :: "rat option"
  o_count :: nat

definition bin_day :: "merged_row \<Rightarrow> (string \<times> int) option" where
  "bin_day m =
     (case m_score_bin m of None \<Rightarrow> None | Some b \<Rightarrow>
      (case m_days_from_release m of None \<Rightarrow> None | Some d \<Rightarrow> Some (b, d)))"

definition overall_analysis :: "merged_row list \<Rightarrow> overall_row list" where
  "overall_analysis merged =
     map (\<lambda>(b, d).
            \<lparr>o_score_bin = b, o_days_from_release = d,
             o_avg_return = agg_mean (col_values m_RET (group_of bin_day merged (b, d))),
             o_count = length (col_values m_RET (group_of bin_day merged (b, d)))\<rparr>)
         (group_keys bin_day merged)"

text \<open>\<^verbatim>\<open>bin_data = overall_analysis[overall_analysis['score_bin'] == score_bin]\<close>\<close>

definition bin_data :: "overall_row list \<Rightarrow> string \<Rightarrow> overall_row list" where
  "bin_data oa score_bin = filter (\<lambda>r. o_score_bin r = score_bin) oa"

section \<open>Event-window returns and the significance test\<close>

text \<open>\<^verbatim>\<open>Series.between(left, right)\<close>, both ends included; a missing value is not between.\<close>

definition between :: "int option \<Rightarrow> int \<Rightarrow> int \<Rightarrow> bool" where
  "between x left right = (case x of None \<Rightarrow> False | Some v \<Rightarrow> left \<le> v \<and> v \<le> right)"

text \<open>\<^verbatim>\<open>event_window = merged_df[merged_df['days_from_release'].between(-3, 3)]\<close>\<close>

definition event_window :: "merged_row list \<Rightarrow> merged_row list" where
  "event_window merged = filter (\<lambda>m. between (m_days_from_release m) (- 3) 3) merged"

text \<open>
  \<^verbatim>\<open>
  firm_event_returns = event_window.groupby(['cusip6', 'year', 'score_bin'])['RET'].sum().reset_index()
  firm_event_returns.columns = ['cusip6', 'year', 'score_bin', 'event_return']
  \<close>
\<close>

record firm_row =
  f_cusip6 :: string
  f_year :: int
  f_score_bin :: string
  f_event_return :: rat

definition firm_year_bin :: "merged_row \<Rightarrow> (string \<times> int \<times> string) option" where
  "firm_year_bin m =
     (case m_cusip6 m of None \<Rightarrow> None | Some c \<Rightarrow>
      (case m_year m of None \<Rightarrow> None | Some y \<Rightarrow>
       (case m_score_bin m of None \<Rightarrow> None | Some b \<Rightarrow> Some (c, y, b))))"

definition firm_event_returns :: "merged_row list \<Rightarrow> firm_row list" where
  "firm_event_returns ew =
     map (\<lambda>(c, y, b).
            \<lparr>f_cusip6 = c, f_year = y, f_score_bin = b,
             f_event_return = sum_list (col_values m_RET (group_of firm_year_bin ew (c, y, b)))\<rparr>)
         (group_keys firm_year_bin ew)"

text \<open>
  \<^verbatim>\<open>
  summary_stats = firm_event_returns.groupby('score_bin')['event_return'].agg(
      ['count', 'mean', 'std', 'min', 'max'])
  \<close>
  without \<^verbatim>\<open>Std_Return\<close> and the derived \<^verbatim>\<open>Mean_Return_pct\<close>.
\<close>

record summary_row =
  st_score_bin :: string
  st_N_firms :: nat
  st_Mean_Return :: "rat option"
  st_Min_Return :: "rat option"
  st_Max_Return :: "rat option"

definition summary_stats :: "firm_row list \<Rightarrow> summary_row list" where
  "summary_stats fer =
     map (\<lambda>b. let vs = map f_event_return (group_of (\<lambda>f. Some (f_score_bin f)) fer b)
               in \<lparr>st_score_bin = b, st_N_firms = length vs, st_Mean_Return = agg_mean vs,
                   st_Min_Return = agg_min vs, st_Max_Return = agg_max vs\<rparr>)
         (group_keys (\<lambda>f. Some (f_score_bin f)) fer)"

text \<open>
  \<^verbatim>\<open>
  high_scores = firm_event_returns[firm_event_returns['score_bin'].isin(['90-100'])]['event_return']
  low_scores = firm_event_returns[firm_event_returns['score_bin'].isin(['0-9', '10-19'])]['event_return']
  \<close>
\<close>

definition high_rows :: "firm_row list \<Rightarrow> firm_row list" where
  "high_rows fer = filter (\<lambda>f. f_score_bin f \<in> set [''90-100'']) fer"

definition low_rows :: "firm_row list \<Rightarrow> firm_row list" where
  "low_rows fer = filter (\<lambda>f. f_score_bin f \<in> set [''0-9'', ''10-19'']) fer"

definition high_scores :: "firm_row list \<Rightarrow> rat list" where
  "high_scores fer = map f_event_return (high_rows fer)"

definition low_scores :: "firm_row list \<Rightarrow> rat list" where
  "low_scores fer = map f_event_return (low_rows fer)"

text \<open>
  \<^verbatim>\<open>
  if len(high_scores) > 0 and len(low_scores) > 0:
      t_stat, p_value = stats.ttest_ind(high_scores, low_scores)
      ...
  else:
      print("Insufficient data for statistical test")
  \<close>
  \<^verbatim>\<open>stats.ttest_ind\<close> is the library's two-sample test; it is a parameter, and its result
  (the pair of the statistic and the p-value) is of any type \<open>'t\<close>.
\<close>

datatype 't test_report = Tested 't | Insufficient_data

definition significance_test :: "(rat list \<Rightarrow> rat list \<Rightarrow> 't) \<Rightarrow> firm_row list \<Rightarrow> 't test_report" where
  "significance_test ttest_ind fer =
     (if length (high_scores fer) > 0 \<and> length (low_scores fer) > 0
      then Tested (ttest_ind (high_scores fer) (low_scores fer))
      else Insufficient_data)"

text \<open>The whole statistical cell, from the two CSV inputs.\<close>

definition analysis_test :: "(rat list \<Rightarrow> rat list \<Rightarrow> 't) \<Rightarrow> stock_row list \<Rightarrow> cei_row list \<Rightarrow> 't test_report" where
  "analysis_test ttest_ind stock_csv cei_csv =
     significance_test ttest_ind (firm_event_returns (event_window (merged_df stock_csv cei_csv)))"

section \<open>Predicates the properties are stated with\<close>

text \<open>The row invariant of the merged data: \<^verbatim>\<open>cusip6\<close> present and six characters long,
  \<^verbatim>\<open>cei_score\<close>, \<^verbatim>\<open>score_bin\<close> and \<^verbatim>\<open>RET\<close> present.\<close>

definition row_invariant :: "merged_row \<Rightarrow> bool" where
  "row_invariant m =
     ((case m_cusip6 m of None \<Rightarrow> False | Some c \<Rightarrow> length c = 6)
      \<and> m_cei_score m \<noteq> None \<and> m_score_bin m \<noteq> None \<and> m_RET m \<noteq> None)"

text \<open>The score bins that occur in a merged frame.\<close>

definition score_bins :: "merged_row list \<Rightarrow> string set" where
  "score_bins merged = {b. \<exists>m. m \<in> set merged \<and> m_score_bin m = Some b}"

text \<open>The two sums a reader can take for ``the sum of a firm-year's daily returns over the
  rows of the window'': over the rows of the merged frame with that \<^verbatim>\<open>cusip6\<close> and
  \<^verbatim>\<open>year\<close>, and over the rows of the stock frame with that \<^verbatim>\<open>cusip6\<close> and release
  year. Neither is computed by the notebook; they are what its event returns are compared
  with.\<close>

definition firm_year_window_sum :: "merged_row list \<Rightarrow> string \<Rightarrow> int \<Rightarrow> rat" where
  "firm_year_window_sum merged c y =
     sum_list (col_values m_RET
       (filter (\<lambda>m. m_cusip6 m = Some c \<and> m_year m = Some y
                    \<and> between (m_days_from_release m) (- 3) 3) merged))"

definition stock_window_sum :: "stock_row list \<Rightarrow> string \<Rightarrow> int \<Rightarrow> rat" where
  "stock_window_sum stock c y =
     sum_list (col_values s_RET
       (filter (\<lambda>s. s_cusip6 s = Some c \<and> s_cei_year s = Some y
                    \<and> between (s_days_from_release s) (- 3) 3) stock))"

chapter \<open>The extraction pipeline of the report\<close>

text \<open>
  The extraction report names four modules (\<^verbatim>\<open>utils.py\<close>, \<^verbatim>\<open>cei_extractor.py\<close>,
  \<^verbatim>\<open>cei_improved_extractor.py\<close>, \<^verbatim>\<open>ocr_cei_extractor.py\<close>). None of them is among the
  sources; what follows is written from the report's description of them. The PDF
  library, the OCR engine and the text parsers are parameters.
\<close>

text \<open>Modelled from the spec: the row of a per-year CSV file, which the missing extractors
  write. ``Each CSV file contains: Company (company name), CEI_Score (numerical score from
  0-100), Year (report year).''\<close>

record cei_record =
  Company :: string
  CEI_Score :: rat
  Year :: int

text \<open>Modelled from the spec: an entry as the missing parsers recognise it, a company name
  with its score, before it is written as a record.\<close>

type_synonym entry = "string \<times> rat"

text \<open>Modelled from the spec: the missing score check. ``Data validation: Ensures score
  ranges (0-100)''; ``Score Validation: Ensure numerical scores within valid range''.\<close>

definition valid_score :: "rat \<Rightarrow> bool" where
  "valid_score s = (0 \<le> s \<and> s \<le> 100)"

text \<open>Modelled from the spec: the missing score validation on a list of entries; an entry
  whose score is out of range is dropped.\<close>

definition validate_scores :: "entry list \<Rightarrow> entry list" where
  "validate_scores es = filter (\<lambda>(name, score). valid_score score) es"

text \<open>Modelled from the spec: the missing writer of the per-year records
  (``normalizes the results into per-year structured records'').\<close>

definition to_records :: "int \<Rightarrow> entry list \<Rightarrow> cei_record list" where
  "to_records year es = map (\<lambda>(name, score). \<lparr>Company = name, CEI_Score = score, Year = year\<rparr>) es"

text \<open>Modelled from the spec: the five numbered steps of the ``OCR Processing Pipeline'' of
  the missing \<^verbatim>\<open>ocr_cei_extractor.py\<close>.\<close>

datatype stage =
  PDF_to_Image_Conversion
| Text_Extraction
| Pattern_Recognition
| Data_Cleaning
| Score_Validation

text \<open>Modelled from the spec: the third-party parts of the missing OCR extractor, as
  parameters: PDF pages to images, the OCR engine, the pattern-recognition parsers (which
  see the document's year) and the cleaning of OCR artifacts.\<close>

record ('pdf, 'img) ocr_tools =
  pdf_to_images :: "'pdf \<Rightarrow> 'img list"
  extract_text :: "'img list \<Rightarrow> string"
  parse_patterns :: "int \<Rightarrow> string \<Rightarrow> entry list"
  clean_entries :: "entry list \<Rightarrow> entry list"

text \<open>Modelled from the spec: what the missing OCR extractor holds between two steps.\<close>

datatype ('pdf, 'img) ocr_data =
  Document 'pdf
| Page_images "'img list"
| Page_text string
| Parsed "entry list"
| Cleaned "entry list"
| Validated "entry list"

text \<open>Modelled from the spec: one step of the missing OCR extractor, with the stage it
  performs; nothing is left to do on validated entries.\<close>

fun ocr_step :: "('pdf, 'img) ocr_tools \<Rightarrow> int \<Rightarrow> ('pdf, 'img) ocr_data \<Rightarrow> (stage \<times> ('pdf, 'img) ocr_data) option" where
  "ocr_step tools year (Document pdf) = Some (PDF_to_Image_Conversion, Page_images (pdf_to_images tools pdf))"
| "ocr_step tools year (Page_images imgs) = Some (Text_Extraction, Page_text (extract_text tools imgs))"
| "ocr_step tools year (Page_text txt) = Some (Pattern_Recognition, Parsed (parse_patterns tools year txt))"
| "ocr_step tools year (Parsed es) = Some (Data_Cleaning, Cleaned (clean_entries tools es))"
| "ocr_step tools year (Cleaned es) = Some (Score_Validation, Validated (validate_scores es))"
| "ocr_step tools year (Validated es) = None"

text \<open>Modelled from the spec: the number of the report's steps still to do, the measure by
  which the run of the missing OCR extractor ends.\<close>

fun steps_left :: "('pdf, 'img) ocr_data \<Rightarrow> nat" where
  "steps_left (Document pdf) = 5"
| "steps_left (Page_images imgs) = 4"
| "steps_left (Page_text txt) = 3"
| "steps_left (Parsed es) = 2"
| "steps_left (Cleaned es) = 1"
| "steps_left (Validated es) = 0"

text \<open>Modelled from the spec: the missing OCR extractor run to its end, with the stages it
  went through, in order.\<close>

function ocr_run :: "('pdf, 'img) ocr_tools \<Rightarrow> int \<Rightarrow> ('pdf, 'img) ocr_data \<Rightarrow> stage list \<times> ('pdf, 'img) ocr_data" where
  "ocr_run tools year d =
     (case ocr_step tools year d of
        None \<Rightarrow> ([], d)
      | Some (st, d') \<Rightarrow> (case ocr_run tools year d' of (trace, r) \<Rightarrow> (st # trace, r)))"
  by pat_completeness auto
termination
  by (relation "measure (\<lambda>(tools, year, d). steps_left d)") (auto elim: ocr_step.elims)

declare ocr_run.simps [simp del]

text \<open>Modelled from the spec: the entries the missing OCR extractor emits, those that
  reached the end of the pipeline.\<close>

fun emitted :: "('pdf, 'img) ocr_data \<Rightarrow> entry list" where
  "emitted (Validated es) = es"
| "emitted d = []"

text \<open>Modelled from the spec: the records of one document by the missing OCR extractor,
  the emitted entries with the document's year.\<close>

definition ocr_extract :: "('pdf, 'img) ocr_tools \<Rightarrow> int \<Rightarrow> 'pdf \<Rightarrow> cei_record list" where
  "ocr_extract tools year pdf = to_records year (emitted (snd (ocr_run tools year (Document pdf))))"

text \<open>Modelled from the spec: why a year is missing from the output of the missing
  extractors. ``2007: No PDF Available (source file not present in dataset)''; ``2021,
  2022: OCR Failed (PDF format incompatible with extraction methods)''.\<close>

datatype failure = No_PDF_Available | Extraction_Failed

text \<open>Modelled from the spec: one year of the missing driver. \<open>pdf_of\<close> finds the year's
  PDF under \<^verbatim>\<open>./data/raw/CEI/\<close>; \<open>extract\<close> stands for the extraction strategies tried
  on it (table extraction, then OCR) and returns \<open>None\<close> when all of them fail. The
  entries of a year that succeeds are validated and written as records.\<close>

definition process_year :: "(int \<Rightarrow> 'pdf option) \<Rightarrow> (int \<Rightarrow> 'pdf \<Rightarrow> entry list option) \<Rightarrow> int \<Rightarrow> failure + cei_record list" where
  "process_year pdf_of extract year =
     (case pdf_of year of
        None \<Rightarrow> Inl No_PDF_Available
      | Some pdf \<Rightarrow>
          (case extract year pdf of
             None \<Rightarrow> Inl Extraction_Failed
           | Some es \<Rightarrow> Inr (to_records year (validate_scores es))))"

text \<open>Modelled from the spec: the state of the missing driver, the per-year files written
  under \<^verbatim>\<open>./data/processed/cei/\<close> (\<^verbatim>\<open>cei_<year>.csv\<close>) and the failures logged.\<close>

record run_state =
  processed :: "(int \<times> cei_record list) list"
  logged :: "(int \<times> failure) list"

text \<open>Modelled from the spec: the missing driver's loop over the years (``best-effort
  parsing and logging''): a year that fails is logged and skipped, the loop goes on.\<close>

fun process_years :: "(int \<Rightarrow> 'pdf option) \<Rightarrow> (int \<Rightarrow> 'pdf \<Rightarrow> entry list option) \<Rightarrow> int list \<Rightarrow> run_state \<Rightarrow> run_state" where
  "process_years pdf_of extract [] st = st"
| "process_years pdf_of extract (year # years) st =
     process_years pdf_of extract years
       (case process_year pdf_of extract year of
          Inl why \<Rightarrow> st\<lparr>logged := logged st @ [(year, why)]\<rparr>
        | Inr records \<Rightarrow> st\<lparr>processed := processed st @ [(year, records)]\<rparr>)"

text \<open>Modelled from the spec: the missing driver from its start, nothing written and
  nothing logged yet.\<close>

definition process_all :: "(int \<Rightarrow> 'pdf option) \<Rightarrow> (int \<Rightarrow> 'pdf \<Rightarrow> entry list option) \<Rightarrow> int list \<Rightarrow> run_state" where
  "process_all pdf_of extract years = process_years pdf_of extract years \<lparr>processed = [], logged = []\<rparr>"

text \<open>Modelled from the spec: the three formats that the report keys on the year, for the
  pattern recognition of the missing \<^verbatim>\<open>ocr_cei_extractor.py\<close>: ``Modern format
  (2015+)'', ``Mid-era format (2010-2014)'', ``Legacy format (pre-2010)''. The fourth
  format of the report's list, ``Clean company list format (appendices)'', is given no
  year.\<close>

datatype era = Legacy | Mid_era | Modern

text \<open>Modelled from the spec: the era of a year, by the year ranges the report gives.\<close>

definition era_of :: "int \<Rightarrow> era" where
  "era_of year = (if 2015 \<le> year then Modern else if 2010 \<le> year then Mid_era else Legacy)"

text \<open>Modelled from the spec: when a year fails in the missing driver, in the words of the
  claim: its PDF is absent, or its format defeats every extraction strategy.\<close>

definition year_fails :: "(int \<Rightarrow> 'pdf option) \<Rightarrow> (int \<Rightarrow> 'pdf \<Rightarrow> entry list option) \<Rightarrow> int \<Rightarrow> bool" where
  "year_fails pdf_of extract year =
     (case pdf_of year of None \<Rightarrow> True | Some pdf \<Rightarrow> extract year pdf = None)"

chapter \<open>Inputs for the worked instances\<close>

text \<open>Five CEI rows: two that are kept (one with a padded CUSIP), one with a CUSIP of five
  characters, one with no CUSIP and one with no score.\<close>

definition example_cei :: "cei_row list" where
  "example_cei =
     [\<lparr>c_cusip = Some ''037833100'', c_year = Some 2010, c_cei_score = Some 100, c_employer = Some ''Firm A''\<rparr>,
      \<lparr>c_cusip = Some '' 594918104 '', c_year = Some 2010, c_cei_score = Some 15, c_employer = Some ''Firm B''\<rparr>,
      \<lparr>c_cusip = Some ''12345'', c_year = Some 2010, c_cei_score = Some 80, c_employer = Some ''Firm C''\<rparr>,
      \<lparr>c_cusip = None, c_year = Some 2010, c_cei_score = Some 95, c_employer = Some ''Firm D''\<rparr>,
      \<lparr>c_cusip = Some ''88579Y101'', c_year = Some 2010, c_cei_score = None, c_employer = Some ''Firm E''\<rparr>]"

definition release_2010 :: "date option" where
  "release_2010 = Some \<lparr>d_year = 2010, d_month = 10, d_day = 4\<rparr>"

text \<open>Six stock rows: three days of the first firm (one outside the window), two of the
  second (one with no return) and one of a firm with no CEI row.\<close>

definition example_stock :: "stock_row list" where
  "example_stock =
     [\<lparr>s_date = Some \<lparr>d_year = 2010, d_month = 9, d_day = 30\<rparr>, s_cei_release_date = release_2010,
       s_cusip6 = Some ''037833'', s_RET = Some (5 / 100), s_days_from_release = Some (- 4)\<rparr>,
      \<lparr>s_date = Some \<lparr>d_year = 2010, d_month = 10, d_day = 4\<rparr>, s_cei_release_date = release_2010,
       s_cusip6 = Some ''037833'', s_RET = Some (1 / 100), s_days_from_release = Some 0\<rparr>,
      \<lparr>s_date = Some \<lparr>d_year = 2010, d_month = 10, d_day = 7\<rparr>, s_cei_release_date = release_2010,
       s_cusip6 = Some ''037833'', s_RET = Some (- 2 / 100), s_days_from_release = Some 3\<rparr>,
      \<lparr>s_date = Some \<lparr>d_year = 2010, d_month = 10, d_day = 4\<rparr>, s_cei_release_date = release_2010,
       s_cusip6 = Some ''594918'', s_RET = Some (3 / 100), s_days_from_release = Some 0\<rparr>,
      \<lparr>s_date = Some \<lparr>d_year = 2010, d_month = 10, d_day = 5\<rparr>, s_cei_release_date = release_2010,
       s_cusip6 = Some ''594918'', s_RET = None, s_days_from_release = Some 1\<rparr>,
      \<lparr>s_date = Some \<lparr>d_year = 2010, d_month = 10, d_day = 4\<rparr>, s_cei_release_date = release_2010,
       s_cusip6 = Some ''999999'', s_RET = Some (1 / 100), s_days_from_release = Some 0\<rparr>]"

text \<open>Three CEI rows of one year whose CUSIPs share their first six characters (one issuer,
  three rated employers), with the scores 85, 95 and 95, and three days of that issuer's
  stock.\<close>

definition shared_prefix_cei :: "cei_row list" where
  "shared_prefix_cei =
     [\<lparr>c_cusip = Some ''123456101'', c_year = Some 2010, c_cei_score = Some 85, c_employer = Some ''Parent Corp.''\<rparr>,
      \<lparr>c_cusip = Some ''123456209'', c_year = Some 2010, c_cei_score = Some 95, c_employer = Some ''Parent Corp. (East)''\<rparr>,
      \<lparr>c_cusip = Some ''123456308'', c_year = Some 2010, c_cei_score = Some 95, c_employer = Some ''Parent Corp. (West)''\<rparr>]"

definition shared_prefix_stock :: "stock_row list" where
  "shared_prefix_stock =
     [\<lparr>s_date = Some \<lparr>d_year = 2010, d_month = 9, d_day = 30\<rparr>, s_cei_release_date = release_2010,
       s_cusip6 = Some ''123456'', s_RET = Some (5 / 100), s_days_from_release = Some (- 4)\<rparr>,
      \<lparr>s_date = Some \<lparr>d_year = 2010, d_month = 10, d_day = 4\<rparr>, s_cei_release_date = release_2010,
       s_cusip6 = Some ''123456'', s_RET = Some (1 / 100), s_days_from_release = Some 0\<rparr>,
      \<lparr>s_date = Some \<lparr>d_year = 2010, d_month = 10, d_day = 5\<rparr>, s_cei_release_date = release_2010,
       s_cusip6 = Some ''123456'', s_RET = Some (2 / 100), s_days_from_release = Some 1\<rparr>]"

text \<open>A frame of event returns written by hand, with a row in each of the bins the test
  selects.\<close>

definition sample_returns :: "firm_row list" where
  "sample_returns =
     [\<lparr>f_cusip6 = ''037833'', f_year = 2010, f_score_bin = ''90-100'', f_event_return = 2 / 100\<rparr>,
      \<lparr>f_cusip6 = ''594918'', f_year = 2010, f_score_bin = ''10-19'', f_event_return = - 1 / 100\<rparr>,
      \<lparr>f_cusip6 = ''123456'', f_year = 2010, f_score_bin = ''50-59'', f_event_return = 1 / 2\<rparr>,
      \<lparr>f_cusip6 = ''654321'', f_year = 2011, f_score_bin = ''0-9'', f_event_return = 4 / 100\<rparr>]"

text \<open>Modelled from the spec: the years of the report's table of missing years. 2007 has no
  PDF; the PDFs of 2021 and 2022 defeat the extraction; every other year from 2002 to 2022
  yields entries (here two, one of them with a score out of range).\<close>

definition report_pdf_of :: "int \<Rightarrow> string option" where
  "report_pdf_of year = (if year = 2007 then None else Some (''CEI-'' @ str_int year @ ''.pdf''))"

text \<open>Modelled from the spec: the outcome of the extraction on the PDFs of the report's
  years, \<open>None\<close> for the two years whose format the report calls incompatible.\<close>

definition report_extract :: "int \<Rightarrow> string \<Rightarrow> entry list option" where
  "report_extract year pdf =
     (if year = 2021 \<or> year = 2022 then None else Some [(''HSBC USA'', 100), (''Misread Inc.'', 185)])"

text \<open>Modelled from the spec: an instance of the tools of the missing OCR extractor, on
  documents that are lists of page texts.\<close>

definition toy_tools :: "(string list, string) ocr_tools" where
  "toy_tools =
     \<lparr>pdf_to_images = (\<lambda>pages. pages),
      extract_text = concat,
      parse_patterns = (\<lambda>year txt. [(txt, 85), (''Misread Inc.'', 185), (''Humana Inc.'', 100)]),
      clean_entries = filter (\<lambda>(name, score). name \<noteq> [])\<rparr>"

chapter \<open>Properties of the notebook\<close>

section \<open>The CUSIP prefix\<close>

text \<open>
  Claim C6. \<^verbatim>\<open>get_cusip6\<close> returns \<open>None\<close> exactly when its argument is missing or
  when the argument's string form, stripped of surrounding whitespace, has fewer than six
  characters; in every other case it returns the first six characters of the stripped
  string. Nothing is asked of the characters: the second part holds for any string.
\<close>

theorem get_cusip6_spec:
  "(get_cusip6 cusip = None \<longleftrightarrow>
      (cusip = None \<or> (\<exists>raw. cusip = Some raw \<and> length (strip raw) < 6)))
   \<and> (\<forall>raw. cusip = Some raw \<and> 6 \<le> length (strip raw) \<longrightarrow>
         get_cusip6 cusip = Some (take 6 (strip raw)))"
  by (cases cusip) (auto simp: get_cusip6_def Let_def)

text \<open>At a padded argument whose first six characters are letters and digits.\<close>

theorem get_cusip6_spec_witness:
  "get_cusip6 (Some ''  AB12cd99 '') = Some ''AB12cd''"
proof -
  have "6 \<le> length (strip ''  AB12cd99 '')"
    by code_simp
  moreover have "take 6 (strip ''  AB12cd99 '') = ''AB12cd''"
    by code_simp
  ultimately show ?thesis
    using get_cusip6_spec [of "Some ''  AB12cd99 ''"] by simp
qed

lemma get_cusip6_length: "get_cusip6 x = Some c \<Longrightarrow> length c = 6"
  by (cases x) (auto simp: get_cusip6_def Let_def split: if_splits)

text \<open>What \<open>strip\<close> removes is whitespace at the two ends, and all of it.\<close>

lemma strip_decomp:
  "\<exists>l r. s = l @ strip s @ r \<and> (\<forall>c\<in>set l. isspace c) \<and> (\<forall>c\<in>set r. isspace c)"
proof -
  let ?t = "dropWhile isspace s"
  have "s = takeWhile isspace s @ ?t"
    by simp
  moreover have "?t = strip s @ rev (takeWhile isspace (rev ?t))"
    unfolding strip_def by (metis rev_append rev_rev_ident takeWhile_dropWhile_id)
  ultimately have "s = takeWhile isspace s @ strip s @ rev (takeWhile isspace (rev ?t))"
    by simp
  moreover have "\<forall>c\<in>set (takeWhile isspace s). isspace c"
    by (auto dest: set_takeWhileD)
  moreover have "\<forall>c\<in>set (rev (takeWhile isspace (rev ?t))). isspace c"
    by (auto dest: set_takeWhileD)
  ultimately show ?thesis
    by blast
qed

lemma strip_ends:
  "strip s \<noteq> [] \<Longrightarrow> \<not> isspace (hd (strip s)) \<and> \<not> isspace (last (strip s))"
proof -
  let ?t = "dropWhile isspace s"
  let ?u = "dropWhile isspace (rev ?t)"
  assume n: "strip s \<noteq> []"
  then have u: "?u \<noteq> []"
    by (simp only: strip_def rev_is_Nil_conv not_False_eq_True)
  have t: "?t \<noteq> []"
  proof
    assume a: "?t = []"
    have "?u = []"
      unfolding a by simp
    with u show False ..
  qed
  from u have l: "\<not> isspace (hd ?u)"
    by (rule hd_dropWhile)
  from t have h: "\<not> isspace (hd ?t)"
    by (rule hd_dropWhile)
  have "rev ?t = takeWhile isspace (rev ?t) @ ?u"
    by simp
  then have "last (rev ?t) = last ?u"
    using u by (metis last_appendR)
  then have "hd ?t = last ?u"
    using t by (simp add: last_rev)
  with h l u show ?thesis
    by (simp add: strip_def hd_rev last_rev)
qed

section \<open>Decimal formatting\<close>

lemma digit_char_inj: "a < 10 \<Longrightarrow> b < 10 \<Longrightarrow> digit_char a = digit_char b \<Longrightarrow> a = b"
proof -
  assume "a < 10" "b < 10" "digit_char a = digit_char b"
  moreover have "\<forall>a<10. \<forall>b<10. digit_char a = digit_char b \<longrightarrow> a = (b::nat)"
    by (simp add: digit_char_def All_less_Suc numeral_eq_Suc All_less_Suc2 nth_Cons')
  ultimately show ?thesis by blast
qed

lemma digit_char_not_minus: "d < 10 \<Longrightarrow> digit_char d \<noteq> CHR ''-''"
proof -
  have "\<forall>d<10. digit_char d \<noteq> CHR ''-''"
    by (simp add: digit_char_def All_less_Suc numeral_eq_Suc nth_Cons')
  then show "d < 10 \<Longrightarrow> digit_char d \<noteq> CHR ''-''" by blast
qed

lemma str_nat_nonempty: "str_nat n \<noteq> []"
  by (subst str_nat.simps) simp

lemma str_nat_no_minus: "CHR ''-'' \<notin> set (str_nat n)"
proof (induction n rule: str_nat.induct)
  case (1 n)
  show ?case
  proof (cases "n < 10")
    case True
    then show ?thesis
      using digit_char_not_minus [of n] by (subst str_nat.simps) auto
  next
    case False
    then show ?thesis
      using 1 digit_char_not_minus [of "n mod 10"] by (subst str_nat.simps) auto
  qed
qed

text \<open>Two numbers with the same digits are the same number.\<close>

lemma str_nat_inj: "str_nat m = str_nat n \<Longrightarrow> m = n"
proof (induction m arbitrary: n rule: str_nat.induct)
  case (1 m)
  show ?case
  proof (cases "m < 10")
    case m: True
    show ?thesis
    proof (cases "n < 10")
      case True
      with m 1(2) show ?thesis
        by (simp add: str_nat.simps [of m] str_nat.simps [of n] digit_char_inj)
    next
      case False
      with m 1(2) str_nat_nonempty [of "n div 10"] show ?thesis
        by (simp add: str_nat.simps [of m] str_nat.simps [of n] Cons_eq_append_conv)
    qed
  next
    case m: False
    show ?thesis
    proof (cases "n < 10")
      case True
      with m 1(2) str_nat_nonempty [of "m div 10"] show ?thesis
        by (simp add: str_nat.simps [of m] str_nat.simps [of n] append_eq_Cons_conv)
    next
      case False
      with m 1(2) have e: "str_nat (m div 10) = str_nat (n div 10)"
        and d: "digit_char (m mod 10) = digit_char (n mod 10)"
        by (simp_all add: str_nat.simps [of m] str_nat.simps [of n])
      from 1(1) [OF m e] have "m div 10 = n div 10" .
      moreover from d have "m mod 10 = n mod 10"
        by (intro digit_char_inj) simp_all
      ultimately show ?thesis
        by (metis div_mult_mod_eq)
    qed
  qed
qed

lemma str_nat_90: "str_nat 90 = ''90''"
  by code_simp

lemma str_nat_100: "str_nat 100 = ''100''"
  by code_simp

section \<open>The score bins\<close>

text \<open>
  Claim C1. The claim gives the label of a score \<open>s\<close> as \<open>b-e\<close> with \<open>b = 10 * floor (s / 10)\<close>
  and \<open>e = min (b + 9) 100\<close>, and says that every score from 90 up to (not including) 100
  is labelled \<^verbatim>\<open>90-100\<close>, as the function's docstring lists the bins and as the
  significance test selects the high group. The function labels every such score
  \<^verbatim>\<open>90-99\<close>.
\<close>

theorem create_score_bin_nineties:
  "90 \<le> s \<and> s < 100 \<longrightarrow>
     create_score_bin (Some s) = Some ''90-99'' \<and> create_score_bin (Some s) \<noteq> Some ''90-100''"
proof
  assume s: "90 \<le> s \<and> s < 100"
  then have "\<lfloor>s / 10\<rfloor> = 9"
    by (simp add: floor_eq_iff)
  then have "create_score_bin (Some s) = Some (str_int 90 @ ''-'' @ str_int 99)"
    by (simp add: create_score_bin_def Let_def)
  moreover have "str_int 90 @ ''-'' @ str_int 99 = ''90-99''"
    by code_simp
  ultimately show "create_score_bin (Some s) = Some ''90-99''
      \<and> create_score_bin (Some s) \<noteq> Some ''90-100''"
    by simp
qed

text \<open>At the score 95.\<close>

theorem create_score_bin_95:
  "create_score_bin (Some 95) = Some ''90-99'' \<and> create_score_bin (Some 95) \<noteq> Some ''90-100''"
  using create_score_bin_nineties [of 95] by simp

lemma create_score_bin_formula:
  "create_score_bin (Some s) =
     Some (str_int (10 * \<lfloor>s / 10\<rfloor>) @ ''-'' @ str_int (min (10 * \<lfloor>s / 10\<rfloor> + 9) 100))"
  by (simp add: create_score_bin_def Let_def mult.commute)

lemma create_score_bin_None_iff: "create_score_bin score = None \<longleftrightarrow> score = None"
  by (cases score) (simp_all add: create_score_bin_def Let_def)

text \<open>The part of claim C1 that the function meets: the label of a score that is present is
  built from \<open>b = 10 * floor (s / 10)\<close> and \<open>min (b + 9) 100\<close>, the score 100 is labelled
  \<^verbatim>\<open>100-100\<close>, and the result is missing exactly when the score is.\<close>

theorem create_score_bin_label:
  "create_score_bin (Some s) =
     Some (str_int (10 * \<lfloor>s / 10\<rfloor>) @ ''-'' @ str_int (min (10 * \<lfloor>s / 10\<rfloor> + 9) 100))
   \<and> create_score_bin (Some 100) = Some ''100-100''
   \<and> (create_score_bin score = None \<longleftrightarrow> score = None)"
proof (intro conjI)
  show "create_score_bin (Some s) =
     Some (str_int (10 * \<lfloor>s / 10\<rfloor>) @ ''-'' @ str_int (min (10 * \<lfloor>s / 10\<rfloor> + 9) 100))"
    by (rule create_score_bin_formula)
  show "create_score_bin (Some 100) = Some ''100-100''"
    by code_simp
  show "create_score_bin score = None \<longleftrightarrow> score = None"
    by (rule create_score_bin_None_iff)
qed

text \<open>No score at all is labelled \<^verbatim>\<open>90-100\<close>: a label that starts with \<^verbatim>\<open>90-\<close> has
  \<open>b = 90\<close>, and then it ends with \<open>min 99 100 = 99\<close>.\<close>

lemma create_score_bin_never_90_100: "create_score_bin score \<noteq> Some ''90-100''"
proof
  assume a: "create_score_bin score = Some ''90-100''"
  then obtain s where s: "score = Some s"
    by (cases score) (simp_all add: create_score_bin_def)
  define b where "b = \<lfloor>s / 10\<rfloor> * 10"
  define e where "e = min (b + 9) 100"
  from a s have lab: "str_int b @ CHR ''-'' # str_int e = ''90'' @ CHR ''-'' # ''100''"
    by (simp add: create_score_bin_def Let_def b_def e_def)
  have b0: "0 \<le> b"
  proof (rule ccontr)
    assume "\<not> 0 \<le> b"
    with lab show False by (simp add: str_int_def)
  qed
  then have e0: "0 \<le> e" by (simp add: e_def)
  from b0 e0 lab have "str_nat (nat b) @ CHR ''-'' # str_nat (nat e) = ''90'' @ CHR ''-'' # ''100''"
    by (simp add: str_int_def)
  then have "str_nat (nat b) = ''90'' \<and> str_nat (nat e) = ''100''"
    by (subst (asm) append_Cons_eq_iff) (simp_all add: str_nat_no_minus)
  then have "nat b = 90" "nat e = 100"
    using str_nat_inj [of "nat b" 90] str_nat_inj [of "nat e" 100]
    by (simp_all add: str_nat_90 str_nat_100)
  with b0 e0 show False by (simp add: e_def)
qed

section \<open>The merge\<close>

lemma set_merge_inner:
  "m \<in> set (merge_inner stock cei) \<longleftrightarrow>
     (\<exists>s c. s \<in> set stock \<and> c \<in> set cei \<and> keys_match s c \<and> m = join_row s c)"
  by (auto simp: merge_inner_def)

text \<open>One merged row for each matching pair of positions: the length of the join is the
  number of such pairs.\<close>

lemma length_merge_inner:
  "length (merge_inner stock cei) =
     card {(i, j). i < length stock \<and> j < length cei \<and> keys_match (stock ! i) (cei ! j)}"
proof -
  let ?B = "\<lambda>i. {j. j < length cei \<and> keys_match (stock ! i) (cei ! j)}"
  have "length (merge_inner stock cei) = (\<Sum>s\<leftarrow>stock. length (filter (keys_match s) cei))"
    by (simp add: merge_inner_def length_concat comp_def)
  also have "\<dots> = (\<Sum>i = 0..<length stock. card (?B i))"
    by (simp add: sum_list_sum_nth length_filter_conv_card)
  also have "\<dots> = card (SIGMA i:{0..<length stock}. ?B i)"
    by simp
  also have "(SIGMA i:{0..<length stock}. ?B i) =
      {(i, j). i < length stock \<and> j < length cei \<and> keys_match (stock ! i) (cei ! j)}"
    by auto
  finally show ?thesis .
qed

lemma cei_df_row:
  "c \<in> set (cei_df csv) \<Longrightarrow>
     (\<exists>k. c_cusip6 c = Some k \<and> length k = 6) \<and> c_cei_score c \<noteq> None \<and> c_score_bin c \<noteq> None"
  by (auto simp: cei_df_def c_cusip6_def c_score_bin_def create_score_bin_None_iff
      dest: get_cusip6_length)

text \<open>
  Claim C3. The merge is an inner equi-join. A row is in the merge result exactly when it
  is the join of a stock row and a CEI row (of the CEI frame after its \<^verbatim>\<open>dropna\<close>) whose
  \<^verbatim>\<open>cusip6\<close> values are one and the same string of six characters and whose years match,
  the year of the stock row being the calendar year of its \<^verbatim>\<open>cei_release_date\<close> and the
  year of the CEI row its column \<^verbatim>\<open>year\<close> (two missing years match, as pandas joins
  them). Each matching pair of rows gives one merged row, so that the number of merged
  rows is the number of matching pairs; a row of either frame with no partner is in no
  pair and gives none.
\<close>

theorem merge_inner_spec:
  "(m \<in> set (merge_inner stock (cei_df cei_csv)) \<longleftrightarrow>
      (\<exists>s c k. s \<in> set stock \<and> c \<in> set (cei_df cei_csv)
            \<and> s_cusip6 s = Some k \<and> c_cusip6 c = Some k \<and> length k = 6
            \<and> map_option d_year (s_cei_release_date s) = c_year c
            \<and> m = join_row s c))
   \<and> length (merge_inner stock (cei_df cei_csv)) =
       card {(i, j). i < length stock \<and> j < length (cei_df cei_csv)
                   \<and> s_cusip6 (stock ! i) = c_cusip6 (cei_df cei_csv ! j)
                   \<and> map_option d_year (s_cei_release_date (stock ! i)) = c_year (cei_df cei_csv ! j)}"
proof
  have "m \<in> set (merge_inner stock (cei_df cei_csv)) \<longleftrightarrow>
      (\<exists>s c. s \<in> set stock \<and> c \<in> set (cei_df cei_csv) \<and> keys_match s c \<and> m = join_row s c)"
    by (rule set_merge_inner)
  also have "\<dots> \<longleftrightarrow> (\<exists>s c k. s \<in> set stock \<and> c \<in> set (cei_df cei_csv)
            \<and> s_cusip6 s = Some k \<and> c_cusip6 c = Some k \<and> length k = 6
            \<and> map_option d_year (s_cei_release_date s) = c_year c
            \<and> m = join_row s c)"
  proof
    assume "\<exists>s c. s \<in> set stock \<and> c \<in> set (cei_df cei_csv) \<and> keys_match s c \<and> m = join_row s c"
    then obtain s c where sc: "s \<in> set stock" "c \<in> set (cei_df cei_csv)" "keys_match s c"
      "m = join_row s c" by blast
    from cei_df_row [OF sc(2)] obtain k where "c_cusip6 c = Some k" "length k = 6" by blast
    with sc show "\<exists>s c k. s \<in> set stock \<and> c \<in> set (cei_df cei_csv)
            \<and> s_cusip6 s = Some k \<and> c_cusip6 c = Some k \<and> length k = 6
            \<and> map_option d_year (s_cei_release_date s) = c_year c
            \<and> m = join_row s c"
      by (auto simp: keys_match_def s_cei_year_def)
  next
    assume "\<exists>s c k. s \<in> set stock \<and> c \<in> set (cei_df cei_csv)
            \<and> s_cusip6 s = Some k \<and> c_cusip6 c = Some k \<and> length k = 6
            \<and> map_option d_year (s_cei_release_date s) = c_year c
            \<and> m = join_row s c"
    then show "\<exists>s c. s \<in> set stock \<and> c \<in> set (cei_df cei_csv) \<and> keys_match s c \<and> m = join_row s c"
      by (fastforce simp: keys_match_def s_cei_year_def)
  qed
  finally show "m \<in> set (merge_inner stock (cei_df cei_csv)) \<longleftrightarrow>
      (\<exists>s c k. s \<in> set stock \<and> c \<in> set (cei_df cei_csv)
            \<and> s_cusip6 s = Some k \<and> c_cusip6 c = Some k \<and> length k = 6
            \<and> map_option d_year (s_cei_release_date s) = c_year c
            \<and> m = join_row s c)" .
next
  show "length (merge_inner stock (cei_df cei_csv)) =
       card {(i, j). i < length stock \<and> j < length (cei_df cei_csv)
                   \<and> s_cusip6 (stock ! i) = c_cusip6 (cei_df cei_csv ! j)
                   \<and> map_option d_year (s_cei_release_date (stock ! i)) = c_year (cei_df cei_csv ! j)}"
    using length_merge_inner [of stock "cei_df cei_csv"]
    by (simp add: keys_match_def s_cei_year_def)
qed

text \<open>The invariant of the merged frame, and the label no merged row carries.\<close>

lemma merged_df_invariant: "m \<in> set (merged_df stock cei) \<Longrightarrow> row_invariant m"
proof -
  assume "m \<in> set (merged_df stock cei)"
  then obtain s c where sc: "s \<in> set stock" "c \<in> set (cei_df cei)" "keys_match s c"
      "m = join_row s c" and ret: "m_RET m \<noteq> None"
    by (auto simp: merged_df_def set_merge_inner)
  from cei_df_row [OF sc(2)] obtain k where k: "c_cusip6 c = Some k" "length k = 6"
    and sb: "c_cei_score c \<noteq> None" "c_score_bin c \<noteq> None" by blast
  from sc(3) k have "s_cusip6 s = Some k" by (simp add: keys_match_def)
  with sc(4) k sb ret show ?thesis
    by (simp add: row_invariant_def join_row_def)
qed

lemma merged_df_never_90_100:
  "m \<in> set (merged_df stock cei) \<Longrightarrow> m_score_bin m \<noteq> Some ''90-100''"
  by (auto simp: merged_df_def set_merge_inner join_row_def c_score_bin_def
      create_score_bin_never_90_100)

section \<open>Groups\<close>

lemma set_map_filter_conv: "set (List.map_filter f xs) = {y. \<exists>x\<in>set xs. f x = Some y}"
  by (induction xs) (auto split: option.splits)

lemma set_group_keys: "set (group_keys key rows) = {k. \<exists>r\<in>set rows. key r = Some k}"
  by (simp add: group_keys_def set_map_filter_conv)

lemma distinct_group_keys: "distinct (group_keys key rows)"
  by (simp add: group_keys_def)

lemma group_of_nonempty: "k \<in> set (group_keys key rows) \<Longrightarrow> group_of key rows k \<noteq> []"
  by (auto simp: set_group_keys group_of_def filter_empty_conv)

lemma set_group_of: "set (group_of key rows k) = {r \<in> set rows. key r = Some k}"
  by (auto simp: group_of_def)

lemma col_values_nonempty:
  "rows \<noteq> [] \<Longrightarrow> \<forall>r\<in>set rows. col r \<noteq> None \<Longrightarrow> col_values col rows \<noteq> []"
  by (cases rows) (auto simp: col_values_def split: option.splits)

lemma group_values_nonempty:
  assumes "k \<in> set (group_keys key rows)" and "\<forall>r\<in>set rows. col r \<noteq> None"
  shows "col_values col (group_of key rows k) \<noteq> []"
proof (rule col_values_nonempty)
  show "group_of key rows k \<noteq> []"
    using assms(1) by (rule group_of_nonempty)
  show "\<forall>r\<in>set (group_of key rows k). col r \<noteq> None"
    using assms(2) by (simp add: set_group_of)
qed

lemma agg_mean_Some: "vs \<noteq> [] \<Longrightarrow> agg_mean vs \<noteq> None"
  by (simp add: agg_mean_def)

section \<open>Event-window returns\<close>

lemma firm_keys_distinct:
  "distinct (map (\<lambda>f. (f_cusip6 f, f_year f, f_score_bin f)) (firm_event_returns ew))"
proof -
  have "map (\<lambda>f. (f_cusip6 f, f_year f, f_score_bin f)) (firm_event_returns ew) =
      group_keys firm_year_bin ew"
    by (simp add: firm_event_returns_def comp_def case_prod_unfold)
  then show ?thesis
    by (simp add: distinct_group_keys)
qed

lemma firm_row_in:
  "f \<in> set (firm_event_returns ew) \<longleftrightarrow>
     ((f_cusip6 f, f_year f, f_score_bin f) \<in> set (group_keys firm_year_bin ew)
      \<and> f_event_return f =
          sum_list (col_values m_RET (group_of firm_year_bin ew (f_cusip6 f, f_year f, f_score_bin f))))"
  by (cases f) (force simp: firm_event_returns_def image_iff)

lemma firm_year_bin_Some:
  "firm_year_bin m = Some (c, y, b) \<longleftrightarrow>
     m_cusip6 m = Some c \<and> m_year m = Some y \<and> m_score_bin m = Some b"
  by (auto simp: firm_year_bin_def split: option.splits)

lemma group_of_event_window:
  "group_of firm_year_bin (event_window merged) (c, y, b) =
     filter (\<lambda>m. m_cusip6 m = Some c \<and> m_year m = Some y \<and> m_score_bin m = Some b
                 \<and> between (m_days_from_release m) (- 3) 3) merged"
  by (auto simp: group_of_def event_window_def firm_year_bin_Some intro: filter_cong)

lemma firm_rows_bins:
  "f \<in> set (firm_event_returns (event_window merged)) \<Longrightarrow>
     \<exists>m\<in>set merged. m_cusip6 m = Some (f_cusip6 f) \<and> m_year m = Some (f_year f)
        \<and> m_score_bin m = Some (f_score_bin f) \<and> between (m_days_from_release m) (- 3) 3"
  by (auto simp: firm_row_in set_group_keys event_window_def firm_year_bin_Some)

lemma firm_event_return_sum:
  "f \<in> set (firm_event_returns (event_window merged)) \<Longrightarrow>
     f_event_return f =
       sum_list (col_values m_RET
         (filter (\<lambda>m. m_cusip6 m = Some (f_cusip6 f) \<and> m_year m = Some (f_year f)
                      \<and> m_score_bin m = Some (f_score_bin f)
                      \<and> between (m_days_from_release m) (- 3) 3) merged))"
  by (simp add: firm_row_in group_of_event_window)

lemma firm_group_exists:
  "(\<exists>f. f \<in> set (firm_event_returns (event_window merged))
         \<and> f_cusip6 f = c \<and> f_year f = y \<and> f_score_bin f = b)
     \<longleftrightarrow> (\<exists>m. m \<in> set merged \<and> m_cusip6 m = Some c \<and> m_year m = Some y \<and> m_score_bin m = Some b
               \<and> between (m_days_from_release m) (- 3) 3)"
proof -
  let ?ew = "event_window merged"
  have "(\<exists>f. f \<in> set (firm_event_returns ?ew) \<and> f_cusip6 f = c \<and> f_year f = y \<and> f_score_bin f = b)
      \<longleftrightarrow> (c, y, b) \<in> set (group_keys firm_year_bin ?ew)"
  proof
    assume "\<exists>f. f \<in> set (firm_event_returns ?ew) \<and> f_cusip6 f = c \<and> f_year f = y \<and> f_score_bin f = b"
    then show "(c, y, b) \<in> set (group_keys firm_year_bin ?ew)"
      by (auto simp: firm_row_in)
  next
    assume k: "(c, y, b) \<in> set (group_keys firm_year_bin ?ew)"
    let ?f = "\<lparr>f_cusip6 = c, f_year = y, f_score_bin = b,
               f_event_return = sum_list (col_values m_RET (group_of firm_year_bin ?ew (c, y, b)))\<rparr>"
    from k have "?f \<in> set (firm_event_returns ?ew)"
      by (simp add: firm_row_in)
    then show "\<exists>f. f \<in> set (firm_event_returns ?ew) \<and> f_cusip6 f = c \<and> f_year f = y \<and> f_score_bin f = b"
      by (intro exI [of _ ?f]) simp
  qed
  also have "\<dots> \<longleftrightarrow> (\<exists>m. m \<in> set merged \<and> m_cusip6 m = Some c \<and> m_year m = Some y
      \<and> m_score_bin m = Some b \<and> between (m_days_from_release m) (- 3) 3)"
    by (auto simp: set_group_keys event_window_def firm_year_bin_Some)
  finally show ?thesis .
qed

text \<open>
  Claim C4, as the notebook computes it. The event returns are grouped by firm, year and
  score bin. There is exactly one event return for each triple of a \<^verbatim>\<open>cusip6\<close>, a year
  and a score bin that has a merged row inside the window of days -3 to 3 (both ends
  included), and none for any other triple; it is the sum of \<^verbatim>\<open>RET\<close> over exactly the
  merged rows of that triple inside the window. It is the sum over the firm-year's rows
  inside the window whenever all merged rows of the firm-year carry that one score bin.
\<close>

theorem firm_event_returns_spec:
  "distinct (map (\<lambda>f. (f_cusip6 f, f_year f, f_score_bin f)) (firm_event_returns (event_window merged)))
   \<and> ((\<exists>f. f \<in> set (firm_event_returns (event_window merged))
           \<and> f_cusip6 f = c \<and> f_year f = y \<and> f_score_bin f = b)
        \<longleftrightarrow> (\<exists>m. m \<in> set merged \<and> m_cusip6 m = Some c \<and> m_year m = Some y \<and> m_score_bin m = Some b
                  \<and> between (m_days_from_release m) (- 3) 3))
   \<and> (\<forall>f\<in>set (firm_event_returns (event_window merged)).
         f_event_return f =
           sum_list (col_values m_RET
             (filter (\<lambda>m. m_cusip6 m = Some (f_cusip6 f) \<and> m_year m = Some (f_year f)
                          \<and> m_score_bin m = Some (f_score_bin f)
                          \<and> between (m_days_from_release m) (- 3) 3) merged)))
   \<and> (\<forall>f\<in>set (firm_event_returns (event_window merged)).
         (\<forall>m\<in>set merged. m_cusip6 m = Some (f_cusip6 f) \<and> m_year m = Some (f_year f)
              \<longrightarrow> m_score_bin m = Some (f_score_bin f))
         \<longrightarrow> f_event_return f = firm_year_window_sum merged (f_cusip6 f) (f_year f))"
proof (intro conjI ballI impI)
  show "distinct (map (\<lambda>f. (f_cusip6 f, f_year f, f_score_bin f)) (firm_event_returns (event_window merged)))"
    by (rule firm_keys_distinct)
next
  show "(\<exists>f. f \<in> set (firm_event_returns (event_window merged))
           \<and> f_cusip6 f = c \<and> f_year f = y \<and> f_score_bin f = b)
        \<longleftrightarrow> (\<exists>m. m \<in> set merged \<and> m_cusip6 m = Some c \<and> m_year m = Some y \<and> m_score_bin m = Some b
                  \<and> between (m_days_from_release m) (- 3) 3)"
    by (rule firm_group_exists)
next
  fix f assume "f \<in> set (firm_event_returns (event_window merged))"
  then show "f_event_return f =
           sum_list (col_values m_RET
             (filter (\<lambda>m. m_cusip6 m = Some (f_cusip6 f) \<and> m_year m = Some (f_year f)
                          \<and> m_score_bin m = Some (f_score_bin f)
                          \<and> between (m_days_from_release m) (- 3) 3) merged))"
    by (rule firm_event_return_sum)
next
  fix f
  assume f: "f \<in> set (firm_event_returns (event_window merged))"
    and one: "\<forall>m\<in>set merged. m_cusip6 m = Some (f_cusip6 f) \<and> m_year m = Some (f_year f)
              \<longrightarrow> m_score_bin m = Some (f_score_bin f)"
  have "filter (\<lambda>m. m_cusip6 m = Some (f_cusip6 f) \<and> m_year m = Some (f_year f)
                     \<and> m_score_bin m = Some (f_score_bin f)
                     \<and> between (m_days_from_release m) (- 3) 3) merged =
        filter (\<lambda>m. m_cusip6 m = Some (f_cusip6 f) \<and> m_year m = Some (f_year f)
                     \<and> between (m_days_from_release m) (- 3) 3) merged"
    using one by (intro filter_cong) auto
  with firm_event_return_sum [OF f]
  show "f_event_return f = firm_year_window_sum merged (f_cusip6 f) (f_year f)"
    by (simp add: firm_year_window_sum_def)
qed

text \<open>On the example frames: the first event return is the one of the first firm, the sum
  of its returns of day 0 and day 3; its return of day -4 is left out.\<close>

theorem firm_event_returns_spec_witness:
  "firm_event_returns (event_window (merged_df example_stock example_cei)) ! 0 =
     \<lparr>f_cusip6 = ''037833'', f_year = 2010, f_score_bin = ''100-100'', f_event_return = - 1 / 100\<rparr>
   \<and> f_event_return (firm_event_returns (event_window (merged_df example_stock example_cei)) ! 0) =
       sum_list (col_values m_RET
         (filter (\<lambda>m. m_cusip6 m = Some ''037833'' \<and> m_year m = Some 2010
                      \<and> m_score_bin m = Some ''100-100''
                      \<and> between (m_days_from_release m) (- 3) 3)
            (merged_df example_stock example_cei)))"
proof -
  let ?fer = "firm_event_returns (event_window (merged_df example_stock example_cei))"
  have v: "?fer =
     [\<lparr>f_cusip6 = ''037833'', f_year = 2010, f_score_bin = ''100-100'', f_event_return = - 1 / 100\<rparr>,
      \<lparr>f_cusip6 = ''594918'', f_year = 2010, f_score_bin = ''10-19'', f_event_return = 3 / 100\<rparr>]"
    by code_simp
  then have m: "?fer ! 0 \<in> set ?fer"
    by simp
  from firm_event_returns_spec [of "merged_df example_stock example_cei",
      THEN conjunct2, THEN conjunct2, THEN conjunct1, rule_format, OF m]
  show ?thesis
    by (simp add: v)
qed

text \<open>
  Claim C4, as it is stated, fails where several CEI rows share a \<^verbatim>\<open>cusip6\<close> and a year.
  With the scores 85, 95 and 95 for one issuer and year, the notebook computes two event
  returns for that firm-year, 3/100 for the bin \<^verbatim>\<open>80-89\<close> and 6/100 for the bin
  \<^verbatim>\<open>90-99\<close>. The sum of \<^verbatim>\<open>RET\<close> over the firm-year's merged rows inside the window
  is 9/100, and over the firm's stock rows inside the window it is 3/100: the second event
  return is neither.
\<close>

theorem event_return_counterexample:
  "firm_event_returns (event_window (merged_df shared_prefix_stock shared_prefix_cei)) =
     [\<lparr>f_cusip6 = ''123456'', f_year = 2010, f_score_bin = ''80-89'', f_event_return = 3 / 100\<rparr>,
      \<lparr>f_cusip6 = ''123456'', f_year = 2010, f_score_bin = ''90-99'', f_event_return = 6 / 100\<rparr>]
   \<and> firm_year_window_sum (merged_df shared_prefix_stock shared_prefix_cei) ''123456'' 2010 = 9 / 100
   \<and> stock_window_sum shared_prefix_stock ''123456'' 2010 = 3 / 100"
  by code_simp

section \<open>The significance test\<close>

text \<open>
  Claim C2. The test compares the event returns of the firm-year rows whose score bin is
  \<^verbatim>\<open>90-100\<close> (the high group) with those of the rows whose score bin is \<^verbatim>\<open>0-9\<close> or
  \<^verbatim>\<open>10-19\<close> (the low group). The two-sample test is computed, on these two groups, if
  and only if both are non-empty; otherwise the outcome is ``insufficient data'' and no
  statistic or p-value is computed.
\<close>

theorem significance_test_spec:
  "high_scores fer = map f_event_return (filter (\<lambda>f. f_score_bin f = ''90-100'') fer)
   \<and> low_scores fer =
       map f_event_return (filter (\<lambda>f. f_score_bin f = ''0-9'' \<or> f_score_bin f = ''10-19'') fer)
   \<and> ((\<exists>t. significance_test ttest_ind fer = Tested t) \<longleftrightarrow> high_scores fer \<noteq> [] \<and> low_scores fer \<noteq> [])
   \<and> (high_scores fer \<noteq> [] \<and> low_scores fer \<noteq> [] \<longrightarrow>
        significance_test ttest_ind fer = Tested (ttest_ind (high_scores fer) (low_scores fer)))
   \<and> (high_scores fer = [] \<or> low_scores fer = [] \<longrightarrow>
        significance_test ttest_ind fer = Insufficient_data)"
  by (simp add: significance_test_def high_scores_def low_scores_def high_rows_def low_rows_def)

text \<open>On a frame with one row in the high group and two in the low group the test is given
  exactly these returns; on its rows of 2011, which has no row in the high group, the
  outcome is ``insufficient data''. The test is a parameter; here it returns its two
  arguments.\<close>

theorem significance_test_spec_witness:
  "significance_test (\<lambda>high low. (high, low)) sample_returns = Tested ([2 / 100], [- 1 / 100, 4 / 100])
   \<and> significance_test (\<lambda>high low. (high, low)) (filter (\<lambda>f. f_year f = 2011) sample_returns) =
       Insufficient_data"
proof -
  have h: "high_scores sample_returns = [2 / 100]"
    by (simp add: high_scores_def high_rows_def sample_returns_def)
  have l: "low_scores sample_returns = [- 1 / 100, 4 / 100]"
    by (simp add: low_scores_def low_rows_def sample_returns_def)
  have h': "high_scores (filter (\<lambda>f. f_year f = 2011) sample_returns) = []"
    by (simp add: high_scores_def high_rows_def sample_returns_def)
  from significance_test_spec [of sample_returns "\<lambda>high low. (high, low)"]
    significance_test_spec [of "filter (\<lambda>f. f_year f = 2011) sample_returns" "\<lambda>high low. (high, low)"]
  show ?thesis
    unfolding h l h' by simp
qed

lemma high_scores_empty:
  "high_scores (firm_event_returns (event_window (merged_df stock cei))) = []"
  by (auto simp: high_scores_def high_rows_def filter_empty_conv
      dest!: firm_rows_bins merged_df_never_90_100)

text \<open>
  What the labels of \<^verbatim>\<open>create_score_bin\<close> mean for the test. No score is labelled
  \<^verbatim>\<open>90-100\<close>, so on the frames the notebook itself builds the high group is empty
  whatever the two CSV inputs are, and the statistical cell always ends with
  ``insufficient data''.
\<close>

theorem high_group_always_empty:
  "create_score_bin score \<noteq> Some ''90-100''
   \<and> high_scores (firm_event_returns (event_window (merged_df stock_csv cei_csv))) = []
   \<and> analysis_test ttest_ind stock_csv cei_csv = Insufficient_data"
  by (simp add: create_score_bin_never_90_100 analysis_test_def significance_test_def
      high_scores_empty)

section \<open>The invariant of the merged data\<close>

lemma event_window_subset: "set (event_window merged) \<subseteq> set merged"
  by (auto simp: event_window_def)

lemma year_bin_day_Some:
  "year_bin_day m = Some (y, b, d) \<longleftrightarrow>
     m_year m = Some y \<and> m_score_bin m = Some b \<and> m_days_from_release m = Some d"
  by (auto simp: year_bin_day_def split: option.splits)

lemma bin_day_Some:
  "bin_day m = Some (b, d) \<longleftrightarrow> m_score_bin m = Some b \<and> m_days_from_release m = Some d"
  by (auto simp: bin_day_def split: option.splits)

lemma yearly_keys:
  "map (\<lambda>r. (y_year r, y_score_bin r, y_days_from_release r)) (yearly_analysis merged) =
     group_keys year_bin_day merged"
  by (simp add: yearly_analysis_def comp_def case_prod_unfold)

lemma yearly_row_in:
  assumes "r \<in> set (yearly_analysis merged)"
  shows "(y_year r, y_score_bin r, y_days_from_release r) \<in> set (group_keys year_bin_day merged)"
    and "y_avg_return r =
      agg_mean (col_values m_RET
        (group_of year_bin_day merged (y_year r, y_score_bin r, y_days_from_release r)))"
  using assms by (auto simp: yearly_analysis_def)

lemma overall_row_in:
  assumes "r \<in> set (overall_analysis merged)"
  shows "(o_score_bin r, o_days_from_release r) \<in> set (group_keys bin_day merged)"
    and "o_avg_return r =
      agg_mean (col_values m_RET (group_of bin_day merged (o_score_bin r, o_days_from_release r)))"
  using assms by (auto simp: overall_analysis_def)

lemma yearly_invariant:
  assumes "\<forall>m\<in>set merged. m_RET m \<noteq> None" and "r \<in> set (yearly_analysis merged)"
  shows "y_score_bin r \<in> score_bins merged \<and> y_avg_return r \<noteq> None"
proof
  from yearly_row_in(1) [OF assms(2)] show "y_score_bin r \<in> score_bins merged"
    by (auto simp: set_group_keys year_bin_day_Some score_bins_def)
  from yearly_row_in [OF assms(2)] assms(1) show "y_avg_return r \<noteq> None"
    by (simp add: agg_mean_Some group_values_nonempty)
qed

lemma overall_invariant:
  assumes "\<forall>m\<in>set merged. m_RET m \<noteq> None" and "r \<in> set (overall_analysis merged)"
  shows "o_score_bin r \<in> score_bins merged \<and> o_avg_return r \<noteq> None"
proof
  from overall_row_in(1) [OF assms(2)] show "o_score_bin r \<in> score_bins merged"
    by (auto simp: set_group_keys bin_day_Some score_bins_def)
  from overall_row_in [OF assms(2)] assms(1) show "o_avg_return r \<noteq> None"
    by (simp add: agg_mean_Some group_values_nonempty)
qed

text \<open>The rows of one year have distinct pairs of a day and a score bin, so the pivot of
  the notebook never raises.\<close>

lemma year_data_distinct:
  "distinct (map (\<lambda>r. (y_days_from_release r, y_score_bin r))
     (year_data (yearly_analysis merged) year))"
proof -
  have "distinct (map (\<lambda>r. (y_year r, y_score_bin r, y_days_from_release r)) (yearly_analysis merged))"
    by (simp add: yearly_keys distinct_group_keys)
  then have "distinct (map (\<lambda>r. (y_year r, y_score_bin r, y_days_from_release r))
      (year_data (yearly_analysis merged) year))"
    unfolding year_data_def by (rule distinct_map_filter)
  then show ?thesis
    unfolding distinct_map by (auto simp: inj_on_def year_data_def)
qed

lemma pivot_data_ok:
  "\<exists>t. pivot_data merged year = Inr t \<and> set (p_columns t) \<subseteq> score_bins merged"
proof -
  have "set (map y_score_bin (year_data (yearly_analysis merged) year)) \<subseteq> score_bins merged"
    using yearly_row_in(1) [of _ merged]
    by (fastforce simp: year_data_def set_group_keys year_bin_day_Some score_bins_def)
  then show ?thesis
    by (simp add: pivot_data_def pivot_def year_data_distinct)
qed

lemma firm_invariant:
  assumes "\<forall>m\<in>set merged. row_invariant m"
    and "f \<in> set (firm_event_returns (event_window merged))"
  shows "length (f_cusip6 f) = 6 \<and> f_score_bin f \<in> score_bins merged"
proof -
  from firm_rows_bins [OF assms(2)] obtain m where m: "m \<in> set merged"
    "m_cusip6 m = Some (f_cusip6 f)" "m_score_bin m = Some (f_score_bin f)" by blast
  with assms(1) have "row_invariant m" by blast
  with m show ?thesis
    by (auto simp: row_invariant_def score_bins_def)
qed

lemma summary_row_in:
  assumes "r \<in> set (summary_stats fer)"
  shows "\<exists>f\<in>set fer. f_score_bin f = st_score_bin r" and "st_Mean_Return r \<noteq> None"
proof -
  let ?key = "\<lambda>f. Some (f_score_bin f)"
  from assms have k: "st_score_bin r \<in> set (group_keys ?key fer)"
    and v: "st_Mean_Return r = agg_mean (map f_event_return (group_of ?key fer (st_score_bin r)))"
    by (auto simp: summary_stats_def Let_def)
  from k show "\<exists>f\<in>set fer. f_score_bin f = st_score_bin r"
    by (auto simp: set_group_keys)
  from group_of_nonempty [OF k] v show "st_Mean_Return r \<noteq> None"
    by (simp add: agg_mean_def)
qed

text \<open>
  Claim C5. After the preparation (the two \<^verbatim>\<open>dropna\<close> calls around the merge) every row
  of the merged frame has a \<^verbatim>\<open>cusip6\<close> that is present and six characters long, and a
  \<^verbatim>\<open>cei_score\<close>, a \<^verbatim>\<open>score_bin\<close> and a \<^verbatim>\<open>RET\<close> that are present. No later cell
  assigns the merged frame, and what the later cells derive from it keeps the invariant on
  the columns it carries:
  \<^item> the filter \<^verbatim>\<open>event_window\<close> keeps rows of the merged frame;
  \<^item> the groupings \<^verbatim>\<open>yearly_analysis\<close> and \<^verbatim>\<open>overall_analysis\<close> have score bins of the
    merged frame and a mean return that is present; the filters \<^verbatim>\<open>year_data\<close> and
    \<^verbatim>\<open>bin_data\<close> keep rows of these;
  \<^item> the pivot succeeds and its columns are score bins of the merged frame (a cell of the
    pivot is the mean return of a day and a bin, or missing where the year has no such
    row; it is not one of the four columns);
  \<^item> the grouping \<^verbatim>\<open>firm_event_returns\<close> has a \<^verbatim>\<open>cusip6\<close> of six characters and a score
    bin of the merged frame; \<^verbatim>\<open>summary_stats\<close> groups these by score bin, and the high
    and low groups of the test are rows of \<^verbatim>\<open>firm_event_returns\<close>.
  In the aggregate frames the key columns cannot be missing by their type: a grouping
  leaves out the rows with a missing key.
\<close>

theorem invariant_preserved:
  fixes stock_csv cei_csv year bin
  defines "merged \<equiv> merged_df stock_csv cei_csv"
  defines "fer \<equiv> firm_event_returns (event_window (merged_df stock_csv cei_csv))"
  shows
  "(\<forall>m\<in>set merged. row_invariant m)
   \<and> (\<forall>m\<in>set (event_window merged). row_invariant m)
   \<and> (\<forall>r\<in>set (yearly_analysis merged). y_score_bin r \<in> score_bins merged \<and> y_avg_return r \<noteq> None)
   \<and> set (year_data (yearly_analysis merged) year) \<subseteq> set (yearly_analysis merged)
   \<and> (\<exists>t. pivot_data merged year = Inr t \<and> set (p_columns t) \<subseteq> score_bins merged)
   \<and> (\<forall>r\<in>set (overall_analysis merged). o_score_bin r \<in> score_bins merged \<and> o_avg_return r \<noteq> None)
   \<and> set (bin_data (overall_analysis merged) bin) \<subseteq> set (overall_analysis merged)
   \<and> (\<forall>f\<in>set fer. length (f_cusip6 f) = 6 \<and> f_score_bin f \<in> score_bins merged)
   \<and> (\<forall>r\<in>set (summary_stats fer). st_score_bin r \<in> score_bins merged \<and> st_Mean_Return r \<noteq> None)
   \<and> set (high_rows fer) \<subseteq> set fer \<and> set (low_rows fer) \<subseteq> set fer"
proof -
  have inv: "\<forall>m\<in>set merged. row_invariant m"
    unfolding merged_def by (blast intro: merged_df_invariant)
  then have ret: "\<forall>m\<in>set merged. m_RET m \<noteq> None"
    by (simp add: row_invariant_def)
  have ew: "\<forall>m\<in>set (event_window merged). row_invariant m"
    using inv event_window_subset [of merged] by blast
  have ya: "\<forall>r\<in>set (yearly_analysis merged). y_score_bin r \<in> score_bins merged \<and> y_avg_return r \<noteq> None"
    using yearly_invariant [OF ret] by blast
  have oa: "\<forall>r\<in>set (overall_analysis merged). o_score_bin r \<in> score_bins merged \<and> o_avg_return r \<noteq> None"
    using overall_invariant [OF ret] by blast
  have fi: "\<forall>f\<in>set fer. length (f_cusip6 f) = 6 \<and> f_score_bin f \<in> score_bins merged"
    unfolding fer_def merged_def [symmetric] using firm_invariant [OF inv] by blast
  have su: "\<forall>r\<in>set (summary_stats fer). st_score_bin r \<in> score_bins merged \<and> st_Mean_Return r \<noteq> None"
  proof
    fix r assume r: "r \<in> set (summary_stats fer)"
    from summary_row_in(1) [OF r] fi have "st_score_bin r \<in> score_bins merged"
      by auto
    with summary_row_in(2) [OF r]
    show "st_score_bin r \<in> score_bins merged \<and> st_Mean_Return r \<noteq> None"
      by simp
  qed
  have sub: "set (year_data (yearly_analysis merged) year) \<subseteq> set (yearly_analysis merged)"
    "set (bin_data (overall_analysis merged) bin) \<subseteq> set (overall_analysis merged)"
    "set (high_rows fer) \<subseteq> set fer" "set (low_rows fer) \<subseteq> set fer"
    by (auto simp: year_data_def bin_data_def high_rows_def low_rows_def)
  from inv ew ya oa fi su sub pivot_data_ok [of merged year] show ?thesis
    by blast
qed

text \<open>On the example frames: five of the thirty pairs of a stock row and a CEI row match,
  four of them with a return; each of these four rows, and each event return, meets the
  invariant.\<close>

theorem invariant_preserved_witness:
  "length (merged_df example_stock example_cei) = 4
   \<and> list_all row_invariant (merged_df example_stock example_cei)
   \<and> list_all (\<lambda>f. length (f_cusip6 f) = 6)
        (firm_event_returns (event_window (merged_df example_stock example_cei)))"
proof -
  have "length (merged_df example_stock example_cei) = 4"
    by code_simp
  with invariant_preserved [of example_stock example_cei 2010 "''10-19''"] show ?thesis
    by (simp add: list_all_iff)
qed

chapter \<open>Properties of the extraction pipeline, as the report describes it\<close>

section \<open>The OCR pipeline\<close>

lemma ocr_run_Validated: "ocr_run tools year (Validated es) = ([], Validated es)"
  by (simp add: ocr_run.simps)

lemma ocr_run_Cleaned:
  "ocr_run tools year (Cleaned es) = ([Score_Validation], Validated (validate_scores es))"
  by (simp add: ocr_run.simps [of _ _ "Cleaned es"] ocr_run_Validated)

lemma ocr_run_Parsed:
  "ocr_run tools year (Parsed es) =
     ([Data_Cleaning, Score_Validation], Validated (validate_scores (clean_entries tools es)))"
  by (simp add: ocr_run.simps [of _ _ "Parsed es"] ocr_run_Cleaned)

lemma ocr_run_Page_text:
  "ocr_run tools year (Page_text txt) =
     ([Pattern_Recognition, Data_Cleaning, Score_Validation],
      Validated (validate_scores (clean_entries tools (parse_patterns tools year txt))))"
  by (simp add: ocr_run.simps [of _ _ "Page_text txt"] ocr_run_Parsed)

lemma ocr_run_Page_images:
  "ocr_run tools year (Page_images imgs) =
     ([Text_Extraction, Pattern_Recognition, Data_Cleaning, Score_Validation],
      Validated (validate_scores (clean_entries tools
        (parse_patterns tools year (extract_text tools imgs)))))"
  by (simp add: ocr_run.simps [of _ _ "Page_images imgs"] ocr_run_Page_text)

lemma ocr_run_Document:
  "ocr_run tools year (Document pdf) =
     ([PDF_to_Image_Conversion, Text_Extraction, Pattern_Recognition, Data_Cleaning, Score_Validation],
      Validated (validate_scores (clean_entries tools
        (parse_patterns tools year (extract_text tools (pdf_to_images tools pdf))))))"
  by (simp add: ocr_run.simps [of _ _ "Document pdf"] ocr_run_Page_images)

lemma set_validate_scores: "set (validate_scores es) = {(n, s). (n, s) \<in> set es \<and> valid_score s}"
  by (auto simp: validate_scores_def)

lemma to_records_fields:
  "r \<in> set (to_records year es) \<longleftrightarrow> ((Company r, CEI_Score r) \<in> set es \<and> Year r = year)"
  by (cases r) (force simp: to_records_def image_iff)

lemma ocr_extract_eq:
  "ocr_extract tools year pdf =
     to_records year (validate_scores (clean_entries tools
       (parse_patterns tools year (extract_text tools (pdf_to_images tools pdf)))))"
  by (simp add: ocr_extract_def ocr_run_Document)

text \<open>
  Claim C10. On every document the OCR pipeline goes through its five stages in the one
  order of the report: PDF pages to images, text extraction, pattern recognition, data
  cleaning, score validation. Score validation is the last stage and works on the cleaned
  entries, so the entries the pipeline emits are those of the cleaned entries that pass
  it, and every emitted record has a valid score.
\<close>

theorem ocr_pipeline_order:
  "ocr_run tools year (Document pdf) =
     ([PDF_to_Image_Conversion, Text_Extraction, Pattern_Recognition, Data_Cleaning, Score_Validation],
      Validated (validate_scores (clean_entries tools
        (parse_patterns tools year (extract_text tools (pdf_to_images tools pdf))))))
   \<and> (\<forall>r\<in>set (ocr_extract tools year pdf). valid_score (CEI_Score r))"
proof
  show "ocr_run tools year (Document pdf) =
     ([PDF_to_Image_Conversion, Text_Extraction, Pattern_Recognition, Data_Cleaning, Score_Validation],
      Validated (validate_scores (clean_entries tools
        (parse_patterns tools year (extract_text tools (pdf_to_images tools pdf))))))"
    by (rule ocr_run_Document)
  show "\<forall>r\<in>set (ocr_extract tools year pdf). valid_score (CEI_Score r)"
    by (auto simp: ocr_extract_eq to_records_fields set_validate_scores)
qed

text \<open>On a document of two pages whose parser reads three entries, one of them with the
  score 185: the two entries in range are emitted.\<close>

theorem ocr_pipeline_order_witness:
  "ocr_extract toy_tools 2019 [''HSBC'', '' USA''] =
     [\<lparr>Company = ''HSBC USA'', CEI_Score = 85, Year = 2019\<rparr>,
      \<lparr>Company = ''Humana Inc.'', CEI_Score = 100, Year = 2019\<rparr>]
   \<and> valid_score 85 \<and> valid_score 100 \<and> \<not> valid_score 185"
proof -
  have "ocr_extract toy_tools 2019 [''HSBC'', '' USA''] =
      to_records 2019 (validate_scores (clean_entries toy_tools
        (parse_patterns toy_tools 2019
          (extract_text toy_tools (pdf_to_images toy_tools [''HSBC'', '' USA''])))))"
    using ocr_pipeline_order [of toy_tools 2019 "[''HSBC'', '' USA'']"]
    by (simp add: ocr_extract_def)
  also have "\<dots> = [\<lparr>Company = ''HSBC USA'', CEI_Score = 85, Year = 2019\<rparr>,
      \<lparr>Company = ''Humana Inc.'', CEI_Score = 100, Year = 2019\<rparr>]"
    by code_simp
  finally show ?thesis
    by (simp add: valid_score_def)
qed

section \<open>The format eras\<close>

text \<open>The three eras of the report divide the years among them: every year is in exactly
  one. How the fourth format, the clean company list of the appendices, is chosen beside
  them the report does not say, so the choice among the four strategies (claim C9) is not
  modelled.\<close>

lemma era_of_cases:
  "(era_of year = Modern \<longleftrightarrow> 2015 \<le> year)
   \<and> (era_of year = Mid_era \<longleftrightarrow> 2010 \<le> year \<and> year \<le> 2014)
   \<and> (era_of year = Legacy \<longleftrightarrow> year < 2010)"
  by (auto simp: era_of_def)

section \<open>The per-year records\<close>

text \<open>
  Claim C7. Every record of a year's output has a company name and a score taken from one
  extracted entry and carries the report year, and its score lies between 0 and 100, both
  included: an entry with a score out of range is not written. This holds for the records
  the driver writes for a year and for the records the OCR pipeline emits.
\<close>

theorem per_year_records_valid:
  "(process_year pdf_of extract year = Inr records \<longrightarrow>
      (\<exists>pdf es. pdf_of year = Some pdf \<and> extract year pdf = Some es
         \<and> (\<forall>r\<in>set records. (Company r, CEI_Score r) \<in> set es
               \<and> 0 \<le> CEI_Score r \<and> CEI_Score r \<le> 100 \<and> Year r = year)))
   \<and> (\<forall>r\<in>set (ocr_extract tools year doc).
         0 \<le> CEI_Score r \<and> CEI_Score r \<le> 100 \<and> Year r = year)"
proof
  show "process_year pdf_of extract year = Inr records \<longrightarrow>
      (\<exists>pdf es. pdf_of year = Some pdf \<and> extract year pdf = Some es
         \<and> (\<forall>r\<in>set records. (Company r, CEI_Score r) \<in> set es
               \<and> 0 \<le> CEI_Score r \<and> CEI_Score r \<le> 100 \<and> Year r = year))"
    by (auto simp: process_year_def to_records_fields set_validate_scores valid_score_def
        split: option.splits)
  show "\<forall>r\<in>set (ocr_extract tools year doc).
         0 \<le> CEI_Score r \<and> CEI_Score r \<le> 100 \<and> Year r = year"
    by (auto simp: ocr_extract_eq to_records_fields set_validate_scores valid_score_def)
qed

text \<open>For the year 2019 of the report's table, whose extraction reads one entry in range
  and one with the score 185: one record is written.\<close>

theorem per_year_records_valid_witness:
  "process_year report_pdf_of report_extract 2019 =
     Inr [\<lparr>Company = ''HSBC USA'', CEI_Score = 100, Year = 2019\<rparr>]
   \<and> (\<exists>pdf es. report_pdf_of 2019 = Some pdf \<and> report_extract 2019 pdf = Some es
        \<and> list_all (\<lambda>r. (Company r, CEI_Score r) \<in> set es
              \<and> 0 \<le> CEI_Score r \<and> CEI_Score r \<le> 100 \<and> Year r = 2019)
            [\<lparr>Company = ''HSBC USA'', CEI_Score = 100, Year = 2019\<rparr>])"
proof -
  have p: "process_year report_pdf_of report_extract 2019 =
      Inr [\<lparr>Company = ''HSBC USA'', CEI_Score = 100, Year = 2019\<rparr>]"
    by code_simp
  from per_year_records_valid [of report_pdf_of report_extract 2019 _ _ _,
      THEN conjunct1, rule_format, OF p] p
  show ?thesis
    by (simp add: list_all_iff)
qed

section \<open>Best effort, year by year\<close>

lemma process_year_fails:
  "year_fails pdf_of extract y \<longleftrightarrow> isl (process_year pdf_of extract y)"
  by (auto simp: process_year_def year_fails_def split: option.splits)

lemma process_years_processed:
  "map fst (processed (process_years pdf_of extract years st)) =
     map fst (processed st) @ filter (\<lambda>y. \<not> year_fails pdf_of extract y) years"
proof (induction years arbitrary: st)
  case Nil
  show ?case by simp
next
  case (Cons y years)
  show ?case
    by (cases "process_year pdf_of extract y") (simp_all add: Cons process_year_fails)
qed

lemma process_years_logged:
  "map fst (logged (process_years pdf_of extract years st)) =
     map fst (logged st) @ filter (year_fails pdf_of extract) years"
proof (induction years arbitrary: st)
  case Nil
  show ?case by simp
next
  case (Cons y years)
  show ?case
    by (cases "process_year pdf_of extract y") (simp_all add: Cons process_year_fails)
qed

lemma process_years_processed_set:
  "(y, records) \<in> set (processed (process_years pdf_of extract years st)) \<longleftrightarrow>
     (y, records) \<in> set (processed st)
     \<or> (y \<in> set years \<and> process_year pdf_of extract y = Inr records)"
proof (induction years arbitrary: st)
  case Nil
  show ?case by simp
next
  case (Cons x years)
  show ?case
    by (cases "process_year pdf_of extract x") (auto simp: Cons)
qed

lemma process_years_logged_set:
  "(y, why) \<in> set (logged (process_years pdf_of extract years st)) \<longleftrightarrow>
     (y, why) \<in> set (logged st)
     \<or> (y \<in> set years \<and> process_year pdf_of extract y = Inl why)"
proof (induction years arbitrary: st)
  case Nil
  show ?case by simp
next
  case (Cons x years)
  show ?case
    by (cases "process_year pdf_of extract x") (auto simp: Cons)
qed

lemma report_years:
  "[2002..2022] =
     [2002, 2003, 2004, 2005, 2006, 2007, 2008, 2009, 2010, 2011, 2012, 2013, 2014, 2015,
      2016, 2017, 2018, 2019, 2020, 2021, 2022 :: int]"
  by (simp add: upto.simps)

text \<open>
  Claim C8. The driver visits every year. A year fails when its PDF is absent or when
  every extraction strategy fails on it; such a year is logged, with its reason, and gets
  no dataset, and the years after it are processed all the same. The datasets written are
  those of the years that do not fail, in the order of the years, each the records of its
  own year; with no year listed twice there is exactly one dataset for each of them.
\<close>

theorem best_effort_per_year:
  "map fst (processed (process_all pdf_of extract years)) =
     filter (\<lambda>y. \<not> year_fails pdf_of extract y) years
   \<and> map fst (logged (process_all pdf_of extract years)) = filter (year_fails pdf_of extract) years
   \<and> (\<forall>(y, records)\<in>set (processed (process_all pdf_of extract years)).
         process_year pdf_of extract y = Inr records)
   \<and> (\<forall>(y, why)\<in>set (logged (process_all pdf_of extract years)).
         process_year pdf_of extract y = Inl why)
   \<and> (distinct years \<longrightarrow> distinct (map fst (processed (process_all pdf_of extract years))))"
proof (intro conjI)
  show "map fst (processed (process_all pdf_of extract years)) =
      filter (\<lambda>y. \<not> year_fails pdf_of extract y) years"
    by (simp add: process_all_def process_years_processed)
  then show "distinct years \<longrightarrow> distinct (map fst (processed (process_all pdf_of extract years)))"
    by simp
  show "map fst (logged (process_all pdf_of extract years)) = filter (year_fails pdf_of extract) years"
    by (simp add: process_all_def process_years_logged)
  show "\<forall>(y, records)\<in>set (processed (process_all pdf_of extract years)).
         process_year pdf_of extract y = Inr records"
    by (clarsimp simp: process_all_def process_years_processed_set)
  show "\<forall>(y, why)\<in>set (logged (process_all pdf_of extract years)).
         process_year pdf_of extract y = Inl why"
    by (clarsimp simp: process_all_def process_years_logged_set)
qed

text \<open>On the years 2002 to 2022 of the report: the eighteen years of its file list get a
  dataset each, and 2007, 2021 and 2022 are logged.\<close>

theorem best_effort_per_year_witness:
  "map fst (processed (process_all report_pdf_of report_extract [2002..2022])) =
     [2002, 2003, 2004, 2005, 2006, 2008, 2009, 2010, 2011, 2012, 2013, 2014, 2015, 2016,
      2017, 2018, 2019, 2020]
   \<and> map fst (logged (process_all report_pdf_of report_extract [2002..2022])) = [2007, 2021, 2022]
   \<and> distinct (map fst (processed (process_all report_pdf_of report_extract [2002..2022])))"
proof -
  have f1: "filter (\<lambda>y. \<not> year_fails report_pdf_of report_extract y) [2002..2022] =
     [2002, 2003, 2004, 2005, 2006, 2008, 2009, 2010, 2011, 2012, 2013, 2014, 2015, 2016,
      2017, 2018, 2019, 2020]"
    by (simp add: report_years year_fails_def report_pdf_of_def report_extract_def)
  have f2: "filter (year_fails report_pdf_of report_extract) [2002..2022] = [2007, 2021, 2022]"
    by (simp add: report_years year_fails_def report_pdf_of_def report_extract_def)
  have f3: "distinct [2002..2022]"
    by simp
  from best_effort_per_year [of report_pdf_of report_extract "[2002..2022]"] f3
  show ?thesis
    unfolding f1 f2 by simp
qed

end
